theory Spec2Isabelle
  imports Complex_Main
begin

section \<open>Python and NumPy values\<close>

text \<open>
  The optimizer of \<^verbatim>\<open>src/ecogrid/optimization/tou_optimizer.py\<close> computes with
  \<^verbatim>\<open>float\<close> and NumPy \<^verbatim>\<open>float64\<close> values. They are idealised as real numbers:
  rounding, infinities and NaN are outside this development. One-dimensional arrays and
  Python lists are lists. Every exception the module itself can raise is a value of
  \<open>py_error\<close>, and a computation that may raise returns \<open>py_error + 'a\<close>.
\<close>

datatype py_error = IndexError | ValueError | ZeroDivisionError

definition bindE :: "py_error + 'a \<Rightarrow> ('a \<Rightarrow> py_error + 'b) \<Rightarrow> py_error + 'b" where
  "bindE m f = (case m of Inl e \<Rightarrow> Inl e | Inr x \<Rightarrow> f x)"

text \<open>\<^verbatim>\<open>[xs[h] for h in hs]\<close>: an index past the end raises.\<close>

definition py_indices :: "'a list \<Rightarrow> nat list \<Rightarrow> py_error + 'a list" where
  "py_indices xs hs =
     (if list_all (\<lambda>h. h < length xs) hs then Inr (map (\<lambda>h. xs ! h) hs) else Inl IndexError)"

text \<open>\<^verbatim>\<open>sum(xs[t] * ys[t] for t in range(T))\<close>.\<close>

definition py_sum_products :: "real list \<Rightarrow> real list \<Rightarrow> nat \<Rightarrow> py_error + real" where
  "py_sum_products xs ys T =
     (if T \<le> length xs \<and> T \<le> length ys
      then Inr (sum_list (map (\<lambda>t. xs ! t * ys ! t) [0..<T]))
      else Inl IndexError)"

text \<open>The builtin \<^verbatim>\<open>max(xs)\<close> and \<^verbatim>\<open>np.max(xs)\<close>: both raise ValueError on an empty argument.\<close>

definition py_max :: "real list \<Rightarrow> py_error + real" where
  "py_max xs = (case xs of [] \<Rightarrow> Inl ValueError | x # r \<Rightarrow> Inr (fold max r x))"

text \<open>
  A division whose denominator is zero is an error branch of the model: Python raises
  ZeroDivisionError on floats. It is used for the division by the battery capacity, a
  Python float, and for the divisions the source puts under a test of the denominator
  (there NumPy scalars would give inf or nan with a RuntimeWarning; the test keeps the
  branch out of reach either way).
\<close>

definition py_div :: "real \<Rightarrow> real \<Rightarrow> py_error + real" where
  "py_div a b = (if b = 0 then Inl ZeroDivisionError else Inr (a / b))"

text \<open>
  The division inside the first recommendation message is not under a test of its
  denominator. Its operands are NumPy scalars, so it cannot raise; with a zero
  denominator the formatted number is not finite, which is the value \<open>None\<close>.
\<close>

definition np_div :: "real \<Rightarrow> real \<Rightarrow> real option" where
  "np_div a b = (if b = 0 then None else Some (a / b))"

text \<open>
  Elementwise NumPy operations on one-dimensional arrays broadcast: equal lengths
  combine pointwise, an array of length one is stretched, anything else raises ValueError.
\<close>

definition np_broadcast ::
  "(real \<Rightarrow> real \<Rightarrow> real) \<Rightarrow> real list \<Rightarrow> real list \<Rightarrow> py_error + real list" where
  "np_broadcast f xs ys =
     (if length xs = length ys then Inr (map2 f xs ys)
      else if length xs = 1 then Inr (map (f (hd xs)) ys)
      else if length ys = 1 then Inr (map (\<lambda>x. f x (hd ys)) xs)
      else Inl ValueError)"

section \<open>Settings and results\<close>

text \<open>The fields of \<^verbatim>\<open>ecogrid.config.settings.Settings\<close> that the optimizer reads.\<close>

record settings =
  optimization_time_horizon :: nat
  battery_capacity_kwh :: real
  max_contract_capacity_kw :: real
  battery_efficiency_setting :: real
  min_soc_setting :: real
  max_soc_setting :: real
  summer_peak_rate :: real
  summer_off_peak_rate :: real

definition default_settings :: settings where
  "default_settings =
     \<lparr>optimization_time_horizon = 24, battery_capacity_kwh = 100,
      max_contract_capacity_kw = 500, battery_efficiency_setting = 9 / 10,
      min_soc_setting = 1 / 10, max_soc_setting = 9 / 10,
      summer_peak_rate = 934 / 100, summer_off_peak_rate = 229 / 100\<rparr>"

text \<open>
  The recommendation strings are f-strings around computed numbers. Each message of the
  source is a constructor that carries the numbers formatted into it.
\<close>

datatype solar_advice = IncreaseStorage | EfficiencyGood

datatype recommendation =
    PeakPeriodReduced nat nat "real option"
  | BatteryDischarged real
  | SolarUtilization real solar_advice
  | PeakShaved real
  | OffPeakCharging nat nat real
  | NoSpecialRecommendation
  | InstallStorage

record OptimizationResult =
  status :: string
  total_cost :: real
  baseline_cost :: real
  savings :: real
  savings_percent :: real
  battery_schedule :: "real list"
  grid_consumption :: "real list"
  solar_utilization :: "real list"
  peak_reduction :: real
  recommendations :: "recommendation list"

section \<open>The fallback result\<close>

text \<open>\<^verbatim>\<open>TOUOptimizer._baseline_result\<close> (lines 223-241).\<close>

definition baseline_result ::
  "real list \<Rightarrow> real list \<Rightarrow> real list \<Rightarrow> real list \<Rightarrow> py_error + OptimizationResult" where
  "baseline_result load_forecast solar_forecast wind_forecast tariffs =
     (let T = length load_forecast in
      bindE (np_broadcast (-) load_forecast solar_forecast) (\<lambda>d1.
      bindE (np_broadcast (-) d1 wind_forecast) (\<lambda>d2.
      let net_load = map (\<lambda>x. max x 0) d2 in
      bindE (py_sum_products net_load tariffs T) (\<lambda>cost.
      bindE (np_broadcast min solar_forecast load_forecast) (\<lambda>used.
      Inr \<lparr>status = ''Baseline'',
           total_cost = cost,
           baseline_cost = cost,
           savings = 0,
           savings_percent = 0,
           battery_schedule = replicate T 0,
           grid_consumption = net_load,
           solar_utilization = used,
           peak_reduction = 0,
           recommendations = [InstallStorage]\<rparr>)))))"

section \<open>Recommendations\<close>

text \<open>
  \<^verbatim>\<open>TOUOptimizer._generate_recommendations\<close> (lines 243-293). The five rules are
  evaluated in order; each appends at most one message.
\<close>

definition peak_hours_of :: "settings \<Rightarrow> real list \<Rightarrow> nat list" where
  "peak_hours_of st tariffs =
     filter (\<lambda>i. tariffs ! i \<ge> summer_peak_rate st * (9 / 10)) [0..<length tariffs]"

definition off_peak_hours_of :: "settings \<Rightarrow> real list \<Rightarrow> nat list" where
  "off_peak_hours_of st tariffs =
     filter (\<lambda>i. tariffs ! i \<le> summer_off_peak_rate st * (11 / 10)) [0..<length tariffs]"

text \<open>Rule 1, lines 250-258.\<close>

definition rule_peak_period ::
  "settings \<Rightarrow> real list \<Rightarrow> real list \<Rightarrow> real list \<Rightarrow> py_error + recommendation list" where
  "rule_peak_period st load grid tariffs =
     (let peak_hours = peak_hours_of st tariffs in
      if peak_hours \<noteq> [] then
        bindE (py_indices load peak_hours) (\<lambda>ls.
        bindE (py_indices grid peak_hours) (\<lambda>gs.
        let peak_load = sum_list ls; peak_grid = sum_list gs in
        if peak_grid < peak_load * (8 / 10)
        then Inr [PeakPeriodReduced (hd peak_hours) (last peak_hours + 1)
                    (map_option (\<lambda>q. q * 100) (np_div (peak_load - peak_grid) peak_load))]
        else Inr []))
      else Inr [])"

text \<open>Rule 2, lines 261-265.\<close>

definition rule_battery :: "real list \<Rightarrow> recommendation list" where
  "rule_battery battery =
     (let total_discharge = sum_list (map (\<lambda>b. max (- b) 0) battery) in
      if total_discharge > 0 then [BatteryDischarged total_discharge] else [])"

text \<open>Rule 3, lines 268-275. \<^verbatim>\<open>zip\<close> stops at the shorter array.\<close>

definition rule_solar :: "real list \<Rightarrow> real list \<Rightarrow> py_error + recommendation list" where
  "rule_solar load solar =
     (let solar_available = sum_list solar;
          solar_used = sum_list (map2 min solar load) in
      if solar_available > 0 then
        bindE (py_div solar_used solar_available) (\<lambda>q.
        let utilization = q * 100 in
        Inr [SolarUtilization utilization
               (if utilization < 80 then IncreaseStorage else EfficiencyGood)])
      else Inr [])"

text \<open>Rule 4, lines 278-281.\<close>

definition rule_peak_shaving :: "real \<Rightarrow> recommendation list" where
  "rule_peak_shaving peak_reduction_pct =
     (if peak_reduction_pct > 5 then [PeakShaved peak_reduction_pct] else [])"

text \<open>Rule 5, lines 284-291.\<close>

definition rule_off_peak :: "settings \<Rightarrow> real list \<Rightarrow> real list \<Rightarrow> recommendation list" where
  "rule_off_peak st battery tariffs =
     (let off_peak_hours = off_peak_hours_of st tariffs in
      if off_peak_hours \<noteq> [] then
        (let off_peak_charge =
               sum_list (map (\<lambda>h. max (battery ! h) 0)
                          (filter (\<lambda>h. h < length battery) off_peak_hours)) in
         if off_peak_charge > 0
         then [OffPeakCharging (hd off_peak_hours) (last off_peak_hours + 1) off_peak_charge]
         else [])
      else [])"

definition generate_recommendations ::
  "settings \<Rightarrow> real list \<Rightarrow> real list \<Rightarrow> real list \<Rightarrow> real list \<Rightarrow> real list \<Rightarrow> real
     \<Rightarrow> py_error + recommendation list" where
  "generate_recommendations st load solar grid battery tariffs peak_reduction_pct =
     bindE (rule_peak_period st load grid tariffs) (\<lambda>r1.
     bindE (rule_solar load solar) (\<lambda>r3.
     let recs = r1 @ rule_battery battery @ r3 @ rule_peak_shaving peak_reduction_pct
                  @ rule_off_peak st battery tariffs in
     Inr (if recs \<noteq> [] then recs else [NoSpecialRecommendation])))"

section \<open>The optimizer\<close>

text \<open>The attributes set by \<^verbatim>\<open>TOUOptimizer.__init__\<close> (lines 57-63).\<close>

record TOUOptimizer =
  battery_capacity :: real
  max_contract :: real
  battery_efficiency :: real
  min_soc :: real
  max_soc :: real
  time_horizon :: nat

definition TOUOptimizer_init :: "settings \<Rightarrow> TOUOptimizer" where
  "TOUOptimizer_init st =
     \<lparr>battery_capacity = battery_capacity_kwh st,
      max_contract = max_contract_capacity_kw st,
      battery_efficiency = battery_efficiency_setting st,
      min_soc = min_soc_setting st,
      max_soc = max_soc_setting st,
      time_horizon = optimization_time_horizon st\<rparr>"

text \<open>
  The mixed-integer program that lines 96-166 hand to PuLP, as the data it is built from:
  the bounds of the variables, the coefficients of the objective and the right-hand sides
  of the five groups of constraints.
\<close>

record milp_problem =
  horizon :: nat
  grid_buy_ub :: real
  battery_charge_ub :: real
  battery_discharge_ub :: real
  soc_lb :: real
  soc_ub :: real
  solar_used_ub :: "real list"
  wind_used_ub :: "real list"
  objective_tariffs :: "real list"
  renewable_credit :: real
  demand :: "real list"
  efficiency :: real
  soc_start :: real
  solar_limit :: "real list"
  wind_limit :: "real list"
  big_M :: real
  peak_limit :: real
  peak_capped :: "bool list"

definition build_problem ::
  "settings \<Rightarrow> TOUOptimizer \<Rightarrow> real list \<Rightarrow> real list \<Rightarrow> real list \<Rightarrow> real list \<Rightarrow> real
     \<Rightarrow> py_error + milp_problem" where
  "build_problem st self load_forecast solar_forecast wind_forecast tariffs initial_soc =
     (let T = length load_forecast in
      bindE (py_indices solar_forecast [0..<T]) (\<lambda>sol.
      bindE (py_indices wind_forecast [0..<T]) (\<lambda>wnd.
      bindE (py_indices tariffs [0..<T]) (\<lambda>tar.
      Inr \<lparr>horizon = T,
           grid_buy_ub = max_contract self,
           battery_charge_ub = battery_capacity self * (1 / 2),
           battery_discharge_ub = battery_capacity self * (1 / 2),
           soc_lb = battery_capacity self * min_soc self,
           soc_ub = battery_capacity self * max_soc self,
           solar_used_ub = map (\<lambda>s. max s (1 / 1000)) sol,
           wind_used_ub = map (\<lambda>w. max w (1 / 1000)) wnd,
           objective_tariffs = tar,
           renewable_credit = 8 / 10,
           demand = load_forecast,
           efficiency = battery_efficiency self,
           soc_start = battery_capacity self * initial_soc,
           solar_limit = map (\<lambda>s. max s 0) sol,
           wind_limit = map (\<lambda>w. max w 0) wnd,
           big_M = battery_capacity self * 2,
           peak_limit = max_contract self * (8 / 10),
           peak_capped = map (\<lambda>t. t \<ge> summer_peak_rate st * (9 / 10)) tar\<rparr>))))"

text \<open>
  PuLP and the CBC solver are third-party code. A solver is a parameter: a function from
  the program to the status PuLP reports, the value of the objective and the
  \<^verbatim>\<open>varValue\<close> of every variable (\<open>None\<close> when PuLP left it unset). The names
  of the statuses are those of \<^verbatim>\<open>pulp.LpStatus\<close>.
\<close>

datatype lp_status = NotSolved | Optimal | Infeasible | Unbounded | Undefined

fun LpStatus :: "lp_status \<Rightarrow> string" where
  "LpStatus NotSolved = ''Not Solved''"
| "LpStatus Optimal = ''Optimal''"
| "LpStatus Infeasible = ''Infeasible''"
| "LpStatus Unbounded = ''Unbounded''"
| "LpStatus Undefined = ''Undefined''"

record lp_result =
  prob_status :: lp_status
  objective_value :: real
  grid_buy :: "nat \<Rightarrow> real option"
  battery_charge :: "nat \<Rightarrow> real option"
  battery_discharge :: "nat \<Rightarrow> real option"
  soc :: "nat \<Rightarrow> real option"
  solar_used :: "nat \<Rightarrow> real option"
  wind_used :: "nat \<Rightarrow> real option"

type_synonym solver = "milp_problem \<Rightarrow> lp_result"

text \<open>\<^verbatim>\<open>x.varValue or 0\<close>.\<close>

definition or0 :: "real option \<Rightarrow> real" where
  "or0 v = (case v of None \<Rightarrow> 0 | Some x \<Rightarrow> x)"

fun sequenceE :: "(py_error + 'a) list \<Rightarrow> py_error + 'a list" where
  "sequenceE [] = Inr []"
| "sequenceE (m # ms) = bindE m (\<lambda>x. bindE (sequenceE ms) (\<lambda>xs. Inr (x # xs)))"

text \<open>Line 194.\<close>

definition savings_percent_of :: "real \<Rightarrow> real \<Rightarrow> py_error + real" where
  "savings_percent_of savings_ntd baseline_cost_ntd =
     (if baseline_cost_ntd > 0
      then bindE (py_div savings_ntd baseline_cost_ntd) (\<lambda>q. Inr (q * 100))
      else Inr 0)"

text \<open>Lines 199-200.\<close>

definition peak_reduction_of :: "real \<Rightarrow> real \<Rightarrow> py_error + real" where
  "peak_reduction_of baseline_peak optimized_peak =
     (if baseline_peak > 0
      then bindE (py_div (baseline_peak - optimized_peak) baseline_peak) (\<lambda>q. Inr (q * 100))
      else Inr 0)"

text \<open>
  The Optimal branch of \<^verbatim>\<open>TOUOptimizer.optimize\<close> (lines 179-221): the schedules are
  read off the variables, then the costs, the peak reduction and the recommendations.
  \<^verbatim>\<open>soc_schedule\<close> (line 185) divides by the battery capacity, a Python float.
\<close>

definition optimal_result ::
  "settings \<Rightarrow> TOUOptimizer \<Rightarrow> lp_result \<Rightarrow> string \<Rightarrow> real list \<Rightarrow> real list \<Rightarrow> real list
     \<Rightarrow> py_error + OptimizationResult" where
  "optimal_result st self res status_name load_forecast solar_forecast tariffs =
     (let T = length load_forecast;
          grid_schedule = map (\<lambda>t. or0 (grid_buy res t)) [0..<T];
          charge_schedule = map (\<lambda>t. or0 (battery_charge res t)) [0..<T];
          discharge_schedule = map (\<lambda>t. or0 (battery_discharge res t)) [0..<T];
          solar_schedule = map (\<lambda>t. or0 (solar_used res t)) [0..<T];
          wind_schedule = map (\<lambda>t. or0 (wind_used res t)) [0..<T] in
      bindE (sequenceE (map (\<lambda>t. py_div (or0 (soc res t)) (battery_capacity self))
                          [0..<T + 1])) (\<lambda>soc_schedule.
      let battery_sched = map (\<lambda>t. charge_schedule ! t - discharge_schedule ! t) [0..<T];
          total = objective_value res in
      bindE (py_sum_products load_forecast tariffs T) (\<lambda>baseline.
      let savings_ntd = baseline - total in
      bindE (savings_percent_of savings_ntd baseline) (\<lambda>percent.
      bindE (py_max load_forecast) (\<lambda>baseline_peak.
      bindE (py_max grid_schedule) (\<lambda>optimized_peak.
      bindE (peak_reduction_of baseline_peak optimized_peak) (\<lambda>reduction.
      bindE (generate_recommendations st load_forecast solar_forecast grid_schedule
               battery_sched tariffs reduction) (\<lambda>recs.
      Inr \<lparr>status = status_name,
           total_cost = total,
           baseline_cost = baseline,
           savings = savings_ntd,
           savings_percent = percent,
           battery_schedule = battery_sched,
           grid_consumption = grid_schedule,
           solar_utilization = solar_schedule,
           peak_reduction = reduction,
           recommendations = recs\<rparr>))))))))"

text \<open>
  \<^verbatim>\<open>TOUOptimizer.optimize\<close> (lines 68-221). \<open>pulp\<close> is \<open>None\<close> when
  \<^verbatim>\<open>PULP_AVAILABLE\<close> is false.
\<close>

definition optimize ::
  "settings \<Rightarrow> solver option \<Rightarrow> TOUOptimizer \<Rightarrow> real list \<Rightarrow> real list \<Rightarrow> real list \<Rightarrow> real list
     \<Rightarrow> real \<Rightarrow> py_error + OptimizationResult" where
  "optimize st pulp self load_forecast solar_forecast wind_forecast tariffs initial_soc =
     (case pulp of
        None \<Rightarrow> baseline_result load_forecast solar_forecast wind_forecast tariffs
      | Some solve \<Rightarrow>
          bindE (build_problem st self load_forecast solar_forecast wind_forecast tariffs
                   initial_soc) (\<lambda>prob.
          let res = solve prob; status_name = LpStatus (prob_status res) in
          if status_name \<noteq> ''Optimal''
          then baseline_result load_forecast solar_forecast wind_forecast tariffs
          else optimal_result st self res status_name load_forecast solar_forecast tariffs))"

section \<open>Scheduling from a forecast table\<close>

text \<open>
  A pandas DataFrame of numbers: the names of its columns and its rows. A column read
  with \<^verbatim>\<open>df[c].values\<close> has one entry per row.
\<close>

record DataFrame =
  df_columns :: "string list"
  df_rows :: "(string \<Rightarrow> real) list"

definition column_or ::
  "DataFrame \<Rightarrow> string \<Rightarrow> real \<Rightarrow> real list" where
  "column_or df c default_value =
     (if c \<in> set (df_columns df) then map (\<lambda>r. r c) (df_rows df)
      else replicate (length (df_rows df)) default_value)"

text \<open>Assigning a list to a new column raises ValueError unless it has one entry per row.\<close>

definition new_column :: "DataFrame \<Rightarrow> real list \<Rightarrow> py_error + real list" where
  "new_column df xs = (if length xs = length (df_rows df) then Inr xs else Inl ValueError)"

text \<open>
  Lines 316-322 of \<^verbatim>\<open>optimize_schedule\<close>: the megawatt series are brought to the scale
  of the facility.
\<close>

definition scale_forecast ::
  "TOUOptimizer \<Rightarrow> real list \<Rightarrow> real list \<Rightarrow> real list
     \<Rightarrow> py_error + (real list \<times> real list \<times> real list)" where
  "scale_forecast self load_raw solar_raw wind_raw =
     bindE (py_max load_raw) (\<lambda>m.
     let load_max_mw = (if m > 0 then m else 1);
         target_peak_kw = max_contract self * (8 / 10) in
     bindE (py_div target_peak_kw (load_max_mw * 1000)) (\<lambda>scale_factor.
     Inr (map (\<lambda>x. x * 1000 * scale_factor) load_raw,
          map (\<lambda>x. x * 1000 * scale_factor) solar_raw,
          map (\<lambda>x. x * 1000 * scale_factor) wind_raw)))"

record schedule_frame =
  forecast :: DataFrame
  optimized_grid_kw :: "real list"
  battery_schedule_kw :: "real list"
  solar_used_kw :: "real list"
  baseline_cost_column :: "real list"
  optimized_cost :: "real list"

record schedule_summary =
  summary_total_cost :: real
  summary_baseline_cost :: real
  summary_savings :: real
  summary_savings_percent :: real
  summary_peak_reduction :: real
  summary_recommendations :: "recommendation list"

record schedule_output =
  result :: OptimizationResult
  schedule :: schedule_frame
  summary :: schedule_summary

text \<open>\<^verbatim>\<open>TOUOptimizer.optimize_schedule\<close> (lines 295-348).\<close>

definition optimize_schedule ::
  "settings \<Rightarrow> solver option \<Rightarrow> TOUOptimizer \<Rightarrow> DataFrame \<Rightarrow> real
     \<Rightarrow> py_error + schedule_output" where
  "optimize_schedule st pulp self forecast_df initial_soc =
     (let load_raw = column_or forecast_df ''predicted_load_mw'' 0;
          solar_raw = column_or forecast_df ''predicted_solar_mw'' 0;
          wind_raw = column_or forecast_df ''predicted_wind_mw'' 0;
          tariffs = column_or forecast_df ''tariff'' 5 in
      bindE (scale_forecast self load_raw solar_raw wind_raw) (\<lambda>(load, solar, wind).
      bindE (optimize st pulp self load solar wind tariffs initial_soc) (\<lambda>r.
      bindE (new_column forecast_df (grid_consumption r)) (\<lambda>c1.
      bindE (new_column forecast_df (battery_schedule r)) (\<lambda>c2.
      bindE (new_column forecast_df (solar_utilization r)) (\<lambda>c3.
      bindE (np_broadcast (*) (grid_consumption r) tariffs) (\<lambda>c5.
      Inr \<lparr>result = r,
           schedule = \<lparr>forecast = forecast_df,
                       optimized_grid_kw = c1,
                       battery_schedule_kw = c2,
                       solar_used_kw = c3,
                       baseline_cost_column = map2 (*) load tariffs,
                       optimized_cost = c5\<rparr>,
           summary = \<lparr>summary_total_cost = total_cost r,
                      summary_baseline_cost = baseline_cost r,
                      summary_savings = savings r,
                      summary_savings_percent = savings_percent r,
                      summary_peak_reduction = peak_reduction r,
                      summary_recommendations = recommendations r\<rparr>\<rparr>)))))))"

section \<open>Scenarios\<close>

text \<open>A scenario is a dictionary; each key may be absent.\<close>

record scenario =
  sc_name :: "string option"
  sc_battery_capacity :: "real option"
  sc_max_contract :: "real option"
  sc_initial_soc :: "real option"

text \<open>\<^verbatim>\<open>d.get(key, default)\<close>.\<close>

definition get_or :: "'a option \<Rightarrow> 'a \<Rightarrow> 'a" where
  "get_or v d = (case v of None \<Rightarrow> d | Some x \<Rightarrow> x)"

fun str_nat :: "nat \<Rightarrow> string" where
  "str_nat n =
     (if n < 10 then [char_of (48 + n)] else str_nat (n div 10) @ [char_of (48 + n mod 10)])"

record scenario_result =
  scenario_label :: string
  run_battery_capacity :: real
  run_max_contract :: real
  run_result :: schedule_output

text \<open>
  \<^verbatim>\<open>TOUOptimizer.simulate_scenarios\<close> (lines 350-391). The optimizer object is
  mutable state: the loop returns it together with the outcome, so that the attributes
  left behind by an exception are visible. \<open>i\<close> counts the scenarios already run and
  \<open>results\<close> collects their entries.
\<close>

fun simulate_loop ::
  "settings \<Rightarrow> solver option \<Rightarrow> DataFrame \<Rightarrow> nat \<Rightarrow> scenario list \<Rightarrow> TOUOptimizer
     \<Rightarrow> scenario_result list \<Rightarrow> TOUOptimizer \<times> (py_error + scenario_result list)" where
  "simulate_loop st pulp forecast_df i [] self results = (self, Inr results)"
| "simulate_loop st pulp forecast_df i (sc # rest) self results =
     (let original_capacity = battery_capacity self;
          original_contract = max_contract self;
          self1 = self\<lparr>battery_capacity := get_or (sc_battery_capacity sc) (battery_capacity self)\<rparr>;
          self2 = self1\<lparr>max_contract := get_or (sc_max_contract sc) (max_contract self1)\<rparr> in
      case optimize_schedule st pulp self2 forecast_df (get_or (sc_initial_soc sc) (1 / 2)) of
        Inl e \<Rightarrow> (self2, Inl e)
      | Inr opt_result \<Rightarrow>
          simulate_loop st pulp forecast_df (Suc i) rest
            (self2\<lparr>battery_capacity := original_capacity, max_contract := original_contract\<rparr>)
            (results @
               [\<lparr>scenario_label = get_or (sc_name sc) (''Scenario_'' @ str_nat (i + 1)),
                 run_battery_capacity = battery_capacity self2,
                 run_max_contract = max_contract self2,
                 run_result = opt_result\<rparr>]))"

definition simulate_scenarios ::
  "settings \<Rightarrow> solver option \<Rightarrow> TOUOptimizer \<Rightarrow> DataFrame \<Rightarrow> scenario list
     \<Rightarrow> TOUOptimizer \<times> (py_error + scenario_result list)" where
  "simulate_scenarios st pulp self forecast_df scenarios =
     simulate_loop st pulp forecast_df 0 scenarios self []"

section \<open>Observations read off a list of recommendations\<close>

fun is_peak_period :: "recommendation \<Rightarrow> bool" where
  "is_peak_period (PeakPeriodReduced a b p) = True"
| "is_peak_period other = False"

fun is_solar_observation :: "recommendation \<Rightarrow> bool" where
  "is_solar_observation (SolarUtilization u a) = True"
| "is_solar_observation other = False"

section \<open>Concrete inputs\<close>

definition values_of :: "real list \<Rightarrow> nat \<Rightarrow> real option" where
  "values_of xs t = (if t < length xs then Some (xs ! t) else None)"

text \<open>
  One hour of load 50 at tariff 5 under a contract capacity of zero: the program has no
  feasible point, and the solver leaves every variable unset.
\<close>

definition zero_contract :: TOUOptimizer where
  "zero_contract = (TOUOptimizer_init default_settings)\<lparr>max_contract := 0\<rparr>"

definition infeasible_solver :: solver where
  "infeasible_solver prob =
     \<lparr>prob_status = Infeasible, objective_value = 0,
      grid_buy = values_of [], battery_charge = values_of [], battery_discharge = values_of [],
      soc = values_of [], solar_used = values_of [], wind_used = values_of []\<rparr>"

definition fallback_one_hour :: OptimizationResult where
  "fallback_one_hour =
     \<lparr>status = ''Baseline'', total_cost = 250, baseline_cost = 250, savings = 0,
      savings_percent = 0, battery_schedule = [0], grid_consumption = [50],
      solar_utilization = [0], peak_reduction = 0, recommendations = [InstallStorage]\<rparr>"

text \<open>
  Two hours with load 100 and 100, solar 50 and 0, tariffs 2 and 5, and the default
  battery of 100 kWh at half charge. The solver answers Optimal with the plan that
  charges 100/9 in the cheap hour and discharges 50 in the dear one.
\<close>

definition shifting_solver :: solver where
  "shifting_solver prob =
     \<lparr>prob_status = Optimal, objective_value = 2855 / 9,
      grid_buy = values_of [550 / 9, 55],
      battery_charge = values_of [100 / 9, 0],
      battery_discharge = values_of [0, 50],
      soc = values_of [50, 60, 10],
      solar_used = values_of [50, 0],
      wind_used = values_of [0, 0]\<rparr>"

definition shifted_two_hours :: OptimizationResult where
  "shifted_two_hours =
     \<lparr>status = ''Optimal'', total_cost = 2855 / 9, baseline_cost = 700,
      savings = 3445 / 9, savings_percent = 3445 / 63,
      battery_schedule = [100 / 9, - 50], grid_consumption = [550 / 9, 55],
      solar_utilization = [50, 0], peak_reduction = 350 / 9,
      recommendations =
        [BatteryDischarged 50, SolarUtilization 100 EfficiencyGood, PeakShaved (350 / 9),
         OffPeakCharging 0 1 (100 / 9)]\<rparr>"

definition empty_result :: OptimizationResult where
  "empty_result =
     \<lparr>status = ''Baseline'', total_cost = 0, baseline_cost = 0, savings = 0,
      savings_percent = 0, battery_schedule = [], grid_consumption = [],
      solar_utilization = [], peak_reduction = 0, recommendations = [InstallStorage]\<rparr>"

text \<open>A forecast table without rows, and a scenario that doubles the battery.\<close>

definition empty_forecast :: DataFrame where
  "empty_forecast =
     \<lparr>df_columns = [''predicted_load_mw'', ''predicted_solar_mw'', ''predicted_wind_mw'',
                    ''tariff''],
      df_rows = []\<rparr>"

text \<open>
  Three hours of load 100 MW at tariff 5, a scenario without a battery, and a solver that
  answers Optimal with the only feasible plan: the scaled load of 400 kW is bought from
  the grid and the battery stays empty.
\<close>

definition flat_row :: "string \<Rightarrow> real" where
  "flat_row c = (if c = ''predicted_load_mw'' then 100 else if c = ''tariff'' then 5 else 0)"

definition flat_forecast :: DataFrame where
  "flat_forecast =
     \<lparr>df_columns = [''predicted_load_mw'', ''tariff''],
      df_rows = [flat_row, flat_row, flat_row]\<rparr>"

definition no_battery :: scenario where
  "no_battery =
     \<lparr>sc_name = None, sc_battery_capacity = Some 0, sc_max_contract = None,
      sc_initial_soc = None\<rparr>"

definition grid_only_solver :: solver where
  "grid_only_solver prob =
     \<lparr>prob_status = Optimal, objective_value = 6000,
      grid_buy = values_of [400, 400, 400],
      battery_charge = values_of [0, 0, 0],
      battery_discharge = values_of [0, 0, 0],
      soc = values_of [0, 0, 0, 0],
      solar_used = values_of [0, 0, 0],
      wind_used = values_of [0, 0, 0]\<rparr>"

definition larger_battery :: scenario where
  "larger_battery =
     \<lparr>sc_name = Some ''larger battery'', sc_battery_capacity = Some 200,
      sc_max_contract = None, sc_initial_soc = None\<rparr>"

section \<open>Basic facts\<close>

lemma bindE_Inl [simp]: "bindE (Inl e) f = Inl e"
  by (simp add: bindE_def)

lemma bindE_Inr [simp]: "bindE (Inr x) f = f x"
  by (simp add: bindE_def)

lemma bindE_eq_Inr: "bindE m f = Inr y \<longleftrightarrow> (\<exists>x. m = Inr x \<and> f x = Inr y)"
  by (cases m) simp_all

lemma list_all_upt: "list_all (\<lambda>h. h < n) [0..<T] \<longleftrightarrow> T \<le> n"
proof
  assume a: "list_all (\<lambda>h. h < n) [0..<T]"
  show "T \<le> n"
  proof (cases T)
    case 0
    then show ?thesis by simp
  next
    case (Suc k)
    with a have "k < n" by (simp add: list_all_iff)
    with Suc show ?thesis by simp
  qed
next
  assume "T \<le> n"
  then show "list_all (\<lambda>h. h < n) [0..<T]" by (auto simp: list_all_iff)
qed

lemma py_indices_upt:
  "py_indices xs [0..<T] = (if T \<le> length xs then Inr (take T xs) else Inl IndexError)"
  by (auto simp: py_indices_def list_all_upt intro: nth_equalityI)

lemma build_problem_short:
  assumes "length s < length l \<or> length w < length l \<or> length t < length l"
  shows "build_problem st self l s w t isoc = Inl IndexError"
  using assms by (auto simp: build_problem_def Let_def py_indices_upt)

lemma build_problem_long:
  assumes "length l \<le> length s" "length l \<le> length w" "length l \<le> length t"
  shows "\<exists>prob. build_problem st self l s w t isoc = Inr prob"
  using assms by (simp add: build_problem_def Let_def py_indices_upt)

lemma LpStatus_Optimal: "LpStatus x = ''Optimal'' \<longleftrightarrow> x = Optimal"
  by (cases x) simp_all

lemma np_broadcast_same:
  "length xs = length ys \<Longrightarrow> np_broadcast f xs ys = Inr (map2 f xs ys)"
  by (simp add: np_broadcast_def)

lemma net_load_eq:
  assumes "length s = length l" "length w = length l"
  shows "map (\<lambda>x. max x 0) (map2 (-) (map2 (-) l s) w) =
         map (\<lambda>i. max (l ! i - s ! i - w ! i) 0) [0..<length l]"
  using assms by (auto intro!: nth_equalityI)

lemma baseline_result_equal_lengths:
  assumes "length s = length l" "length w = length l" "length t = length l"
  shows "baseline_result l s w t =
     Inr \<lparr>status = ''Baseline'',
          total_cost = (\<Sum>i\<leftarrow>[0..<length l]. max (l ! i - s ! i - w ! i) 0 * t ! i),
          baseline_cost = (\<Sum>i\<leftarrow>[0..<length l]. max (l ! i - s ! i - w ! i) 0 * t ! i),
          savings = 0, savings_percent = 0,
          battery_schedule = replicate (length l) 0,
          grid_consumption = map (\<lambda>i. max (l ! i - s ! i - w ! i) 0) [0..<length l],
          solar_utilization = map2 min s l,
          peak_reduction = 0,
          recommendations = [InstallStorage]\<rparr>"
proof -
  let ?nl = "map (\<lambda>i. max (l ! i - s ! i - w ! i) 0) [0..<length l]"
  have d1: "np_broadcast (-) l s = Inr (map2 (-) l s)"
    using assms by (simp add: np_broadcast_same)
  have d2: "np_broadcast (-) (map2 (-) l s) w = Inr (map2 (-) (map2 (-) l s) w)"
    using assms by (simp add: np_broadcast_same)
  have d3: "np_broadcast min s l = Inr (map2 min s l)"
    using assms by (simp add: np_broadcast_same)
  have nl: "map (\<lambda>x. max x 0) (map2 (-) (map2 (-) l s) w) = ?nl"
    by (rule net_load_eq) (simp_all add: assms)
  have c: "(\<Sum>i\<leftarrow>[0..<length l]. ?nl ! i * t ! i) =
           (\<Sum>i\<leftarrow>[0..<length l]. max (l ! i - s ! i - w ! i) 0 * t ! i)"
    by (rule arg_cong [where f = sum_list]) simp
  have p: "py_sum_products ?nl t (length l) =
           Inr (\<Sum>i\<leftarrow>[0..<length l]. max (l ! i - s ! i - w ! i) 0 * t ! i)"
    using assms c by (simp add: py_sum_products_def)
  show ?thesis
    unfolding baseline_result_def Let_def d1 d2 d3 bindE_Inr nl p ..
qed

lemma baseline_result_fields:
  assumes "baseline_result l s w t = Inr r"
  shows "status r = ''Baseline''" "savings r = 0" "savings_percent r = 0"
    "total_cost r = baseline_cost r" "recommendations r = [InstallStorage]"
  using assms by (auto simp: baseline_result_def Let_def bindE_eq_Inr)

lemma optimal_result_status:
  "optimal_result st self res sn l s t = Inr r \<Longrightarrow> status r = sn"
  by (auto simp: optimal_result_def Let_def bindE_eq_Inr)

lemma optimize_cases:
  assumes "optimize st pulp self l s w t isoc = Inr r"
  shows "baseline_result l s w t = Inr r \<or>
         (\<exists>solve prob. pulp = Some solve \<and> build_problem st self l s w t isoc = Inr prob \<and>
            prob_status (solve prob) = Optimal \<and>
            optimal_result st self (solve prob) ''Optimal'' l s t = Inr r)"
  using assms
  by (auto simp: optimize_def Let_def bindE_eq_Inr LpStatus_Optimal split: option.splits if_splits)

text \<open>
  Claim C7. Every result of \<open>optimize\<close> whose status is \<open>Baseline\<close> has savings 0,
  savings percentage 0, and a total cost equal to its baseline cost.
\<close>

theorem baseline_status_zero_savings:
  assumes "optimize st pulp self l s w t isoc = Inr r" and "status r = ''Baseline''"
  shows "savings r = 0 \<and> savings_percent r = 0 \<and> total_cost r = baseline_cost r"
  using optimize_cases [OF assms(1)] assms(2)
  by (auto dest: baseline_result_fields optimal_result_status)

text \<open>The contract of zero capacity: the solver reports Infeasible and the fallback is returned.\<close>

theorem baseline_status_zero_savings_witness:
  "optimize default_settings (Some infeasible_solver) zero_contract [50] [0] [0] [5] (1 / 2) =
     Inr fallback_one_hour \<and>
   status fallback_one_hour = ''Baseline'' \<and>
   savings fallback_one_hour = 0 \<and> savings_percent fallback_one_hour = 0 \<and>
   total_cost fallback_one_hour = baseline_cost fallback_one_hour"
proof -
  have run: "optimize default_settings (Some infeasible_solver) zero_contract [50] [0] [0] [5]
               (1 / 2) = Inr fallback_one_hour"
    by code_simp
  have st: "status fallback_one_hour = ''Baseline''"
    by (simp add: fallback_one_hour_def)
  from baseline_status_zero_savings [OF run st] run st show ?thesis by simp
qed

text \<open>
  Claim C3, amended. On arrays of one length, \<open>optimize\<close> raises nothing when PuLP is
  missing or the solver reports any status but Optimal: it returns the result of
  \<open>baseline_result\<close>, whose status is \<open>Baseline\<close> and whose cost is the sum of
  \<open>max (load - solar - wind) 0 * tariff\<close>.
\<close>

theorem degrade_to_baseline:
  assumes "length s = length l" "length w = length l" "length t = length l"
  shows "\<exists>r prob. baseline_result l s w t = Inr r \<and> status r = ''Baseline'' \<and>
           baseline_cost r = (\<Sum>i\<leftarrow>[0..<length l]. max (l ! i - s ! i - w ! i) 0 * t ! i) \<and>
           build_problem st self l s w t isoc = Inr prob \<and>
           optimize st None self l s w t isoc = Inr r \<and>
           (\<forall>solve. prob_status (solve prob) \<noteq> Optimal \<longrightarrow>
              optimize st (Some solve) self l s w t isoc = Inr r)"
proof -
  obtain prob where p: "build_problem st self l s w t isoc = Inr prob"
    using build_problem_long [of l s w t st self isoc] assms by auto
  show ?thesis
    using assms p
    by (auto simp: baseline_result_equal_lengths optimize_def Let_def LpStatus_Optimal)
qed


theorem degrade_to_baseline_witness:
  "length [0::real] = length [50::real] \<and> length [0::real] = length [50::real] \<and>
   length [5::real] = length [50::real] \<and>
   prob_status (infeasible_solver
     (projr (build_problem default_settings zero_contract [50] [0] [0] [5] (1 / 2)))) \<noteq> Optimal \<and>
   optimize default_settings (Some infeasible_solver) zero_contract [50] [0] [0] [5] (1 / 2) =
     Inr fallback_one_hour \<and>
   optimize default_settings None zero_contract [50] [0] [0] [5] (1 / 2) = Inr fallback_one_hour \<and>
   status fallback_one_hour = ''Baseline''"
proof -
  have st: "\<And>p. prob_status (infeasible_solver p) \<noteq> Optimal"
    by (simp add: infeasible_solver_def)
  have b: "baseline_result [50] [0] [0] [5] = Inr fallback_one_hour"
    by code_simp
  from degrade_to_baseline [of "[0]" "[50]" "[0]" "[5]" default_settings zero_contract "1 / 2"]
  obtain r prob where
    "baseline_result [50] [0] [0] [5] = Inr r" "status r = ''Baseline''"
    "optimize default_settings None zero_contract [50] [0] [0] [5] (1 / 2) = Inr r"
    "\<forall>solve. prob_status (solve prob) \<noteq> Optimal \<longrightarrow>
       optimize default_settings (Some solve) zero_contract [50] [0] [0] [5] (1 / 2) = Inr r"
    by auto
  with b st show ?thesis by auto
qed

text \<open>
  Claim C3, as stated, fails: the fallback has no check on its input either. With PuLP
  missing, a load of two hours and a solar forecast of three, the subtraction of line 227
  cannot broadcast and \<open>optimize\<close> raises ValueError instead of returning the fallback
  result.
\<close>

theorem fallback_raises_on_mismatched_lengths:
  "optimize default_settings None (TOUOptimizer_init default_settings)
     [100, 100] [50, 0, 0] [0, 0] [2, 5] (1 / 2) = Inl ValueError"
  by code_simp

text \<open>
  Claim C1. In the Optimal branch the baseline cost is the sum of \<open>load * tariff\<close>; the
  fallback nets solar and wind off the load first. On two hours with load 100 and 100, solar
  50 and 0, tariffs 2 and 5 the Optimal branch reports 700 where the fallback formula gives
  600.
\<close>

theorem optimal_baseline_ignores_renewables:
  "optimize default_settings (Some shifting_solver) (TOUOptimizer_init default_settings)
     [100, 100] [50, 0] [0, 0] [2, 5] (1 / 2) = Inr shifted_two_hours \<and>
   baseline_cost shifted_two_hours = 700 \<and>
   map_sum id baseline_cost (baseline_result [100, 100] [50, 0] [0, 0] [2, 5]) = Inr 600"
proof -
  have "optimize default_settings (Some shifting_solver) (TOUOptimizer_init default_settings)
     [100, 100] [50, 0] [0, 0] [2, 5] (1 / 2) = Inr shifted_two_hours"
    by code_simp
  moreover have "baseline_cost shifted_two_hours = 700"
    by (simp add: shifted_two_hours_def)
  moreover have "map_sum id baseline_cost (baseline_result [100, 100] [50, 0] [0, 0] [2, 5]) = Inr 600"
    by code_simp
  ultimately show ?thesis by simp
qed

text \<open>
  Claim C2, as stated, fails: with PuLP missing, empty arrays are not rejected. The
  fallback result with cost 0 and empty schedules is returned.
\<close>

theorem empty_input_not_rejected:
  "optimize default_settings None (TOUOptimizer_init default_settings) [] [] [] [] (1 / 2) =
     Inr empty_result"
  by code_simp

text \<open>
  Claim C2, amended. The module has no check of its own on the input. With PuLP present, a
  solar, wind or tariff array shorter than the load array raises IndexError while the
  program is built, whatever the solver would answer. Empty arrays are not rejected: the
  empty fallback result is returned when PuLP is missing or the solver does not report
  Optimal.
\<close>

theorem short_arrays_raise_IndexError:
  "(length s < length l \<or> length w < length l \<or> length t < length l \<longrightarrow>
      optimize st (Some solve) self l s w t isoc = Inl IndexError) \<and>
   optimize st None self [] [] [] [] isoc = Inr empty_result \<and>
   (prob_status (solve (projr (build_problem st self [] [] [] [] isoc))) \<noteq> Optimal \<longrightarrow>
      optimize st (Some solve) self [] [] [] [] isoc = Inr empty_result)"
proof -
  have e: "baseline_result [] [] [] [] = Inr empty_result"
    by (simp add: baseline_result_equal_lengths empty_result_def)
  have "\<exists>prob. build_problem st self [] [] [] [] isoc = Inr prob"
    by (rule build_problem_long) simp_all
  then obtain prob where p: "build_problem st self [] [] [] [] isoc = Inr prob" ..
  show ?thesis
    using e p by (auto simp: optimize_def build_problem_short Let_def LpStatus_Optimal)
qed

theorem short_arrays_raise_IndexError_witness:
  "length [50::real] < length [100::real, 100] \<and>
   optimize default_settings (Some shifting_solver) (TOUOptimizer_init default_settings)
     [100, 100] [50] [0, 0] [2, 5] (1 / 2) = Inl IndexError \<and>
   prob_status (infeasible_solver (projr (build_problem default_settings zero_contract [] [] [] []
     (1 / 2)))) \<noteq> Optimal \<and>
   optimize default_settings (Some infeasible_solver) zero_contract [] [] [] [] (1 / 2) =
     Inr empty_result"
  using short_arrays_raise_IndexError [of "[50]" "[100, 100]" "[0, 0]" "[2, 5]" default_settings
      shifting_solver "TOUOptimizer_init default_settings" "1 / 2"]
    short_arrays_raise_IndexError [of "[]" "[]" "[]" "[]" default_settings
      infeasible_solver zero_contract "1 / 2"]
  by (simp add: infeasible_solver_def)

section \<open>The recommendation rules\<close>

lemma peak_hours_in_range: "h \<in> set (peak_hours_of st t) \<Longrightarrow> h < length t"
  by (simp add: peak_hours_of_def)

lemma py_indices_peak_hours:
  assumes "length t \<le> length xs"
  shows "py_indices xs (peak_hours_of st t) = Inr (map (\<lambda>h. xs ! h) (peak_hours_of st t))"
proof -
  have "list_all (\<lambda>h. h < length xs) (peak_hours_of st t)"
    using assms peak_hours_in_range [of _ st t] by (fastforce simp: list_all_iff)
  then show ?thesis by (simp add: py_indices_def)
qed

lemma rule_peak_period_eq:
  assumes "length t \<le> length l" "length t \<le> length g"
  shows "rule_peak_period st l g t =
     Inr (if peak_hours_of st t \<noteq> [] \<and>
             (\<Sum>h\<leftarrow>peak_hours_of st t. g ! h) < (\<Sum>h\<leftarrow>peak_hours_of st t. l ! h) * (8 / 10)
          then [PeakPeriodReduced (hd (peak_hours_of st t)) (last (peak_hours_of st t) + 1)
                  (map_option (\<lambda>q. q * 100)
                     (np_div ((\<Sum>h\<leftarrow>peak_hours_of st t. l ! h) - (\<Sum>h\<leftarrow>peak_hours_of st t. g ! h))
                        (\<Sum>h\<leftarrow>peak_hours_of st t. l ! h)))]
          else [])"
  using assms by (simp add: rule_peak_period_def Let_def py_indices_peak_hours)

lemma py_div_nonzero: "b \<noteq> 0 \<Longrightarrow> py_div a b = Inr (a / b)"
  by (simp add: py_div_def)

lemma rule_solar_eq:
  "rule_solar l s =
     Inr (if sum_list s > 0
          then [SolarUtilization (sum_list (map2 min s l) / sum_list s * 100)
                  (if sum_list (map2 min s l) / sum_list s * 100 < 80
                   then IncreaseStorage else EfficiencyGood)]
          else [])"
proof (cases "0 < sum_list s")
  case True
  then have nz: "sum_list s \<noteq> 0" by simp
  show ?thesis
    unfolding rule_solar_def Let_def py_div_nonzero [OF nz] bindE_Inr
    using True by (simp only: if_True)
next
  case False
  then show ?thesis by (simp add: rule_solar_def Let_def)
qed

lemma generate_recommendations_eq:
  assumes "rule_peak_period st l g t = Inr r1" "rule_solar l s = Inr r3"
  shows "generate_recommendations st l s g b t pr =
     Inr (if r1 @ rule_battery b @ r3 @ rule_peak_shaving pr @ rule_off_peak st b t \<noteq> []
          then r1 @ rule_battery b @ r3 @ rule_peak_shaving pr @ rule_off_peak st b t
          else [NoSpecialRecommendation])"
  using assms by (simp add: generate_recommendations_def Let_def)

lemma generate_recommendations_nonempty:
  "generate_recommendations st l s g b t pr = Inr recs \<Longrightarrow> recs \<noteq> []"
  by (auto simp: generate_recommendations_def Let_def bindE_eq_Inr split: if_splits)

lemma generate_recommendations_returns:
  assumes "length t \<le> length l" "length t \<le> length g"
  shows "\<exists>recs. generate_recommendations st l s g b t pr = Inr recs"
  using generate_recommendations_eq [OF rule_peak_period_eq [OF assms] rule_solar_eq]
  by blast

lemma no_peak_period_elsewhere:
  "\<not> list_ex is_peak_period (rule_battery b)"
  "\<not> list_ex is_peak_period (rule_peak_shaving pr)"
  "\<not> list_ex is_peak_period (rule_off_peak st b t)"
  by (simp_all add: rule_battery_def rule_peak_shaving_def rule_off_peak_def Let_def)

lemma no_solar_observation_elsewhere:
  "filter is_solar_observation (rule_battery b) = []"
  "filter is_solar_observation (rule_peak_shaving pr) = []"
  "filter is_solar_observation (rule_off_peak st b t) = []"
  by (simp_all add: rule_battery_def rule_peak_shaving_def rule_off_peak_def Let_def)

text \<open>
  Claim C5, amended. With at least one peak hour (tariff at least 0.9 times the peak rate)
  and load and grid arrays that cover the tariffs, the generator returns, and the
  peak-period observation is among the recommendations exactly when the grid import summed
  over the peak hours is strictly below 0.8 times the load summed over the peak hours.
\<close>

theorem peak_period_threshold:
  assumes "peak_hours_of st t \<noteq> []" "length t \<le> length l" "length t \<le> length g"
  shows "\<exists>recs. generate_recommendations st l s g b t pr = Inr recs \<and>
           (list_ex is_peak_period recs \<longleftrightarrow>
              (\<Sum>h\<leftarrow>peak_hours_of st t. g ! h) < (\<Sum>h\<leftarrow>peak_hours_of st t. l ! h) * (8 / 10))"
  using assms
  by (simp add: generate_recommendations_eq [OF rule_peak_period_eq rule_solar_eq]
        no_peak_period_elsewhere)

text \<open>
  Claim C6, amended. The generator emits exactly one solar-utilization observation when the
  total solar forecast is positive and none otherwise. The observation carries the
  utilization \<open>sum (min solar load) / sum solar * 100\<close>, with the storage suggestion when
  that is below 80 and the adequacy statement otherwise.
\<close>

theorem solar_observation_when_forecast_positive:
  assumes "length t \<le> length l" "length t \<le> length g"
  shows "\<exists>recs. generate_recommendations st l s g b t pr = Inr recs \<and>
           filter is_solar_observation recs =
             (if sum_list s > 0
              then [SolarUtilization (sum_list (map2 min s l) / sum_list s * 100)
                      (if sum_list (map2 min s l) / sum_list s * 100 < 80
                       then IncreaseStorage else EfficiencyGood)]
              else [])"
  using assms
  by (simp add: generate_recommendations_eq [OF rule_peak_period_eq rule_solar_eq]
        no_solar_observation_elsewhere)


text \<open>
  Claim C5, as stated, fails: one peak hour with load 100 and grid import 90 is a reduction
  of 10 percent, at least 5 percent below the load, and no peak-period observation is
  emitted.
\<close>

theorem peak_period_needs_twenty_percent:
  "peak_hours_of default_settings [9] = [0] \<and>
   0 < (\<Sum>h\<leftarrow>peak_hours_of default_settings [9]. [100 :: real] ! h) \<and>
   (\<Sum>h\<leftarrow>peak_hours_of default_settings [9]. [90 :: real] ! h)
     \<le> 95 / 100 * (\<Sum>h\<leftarrow>peak_hours_of default_settings [9]. [100 :: real] ! h) \<and>
   generate_recommendations default_settings [100] [0] [90] [0] [9] 10 = Inr [PeakShaved 10] \<and>
   \<not> list_ex is_peak_period [PeakShaved 10]"
proof -
  have ph: "peak_hours_of default_settings [9] = [0]"
    by code_simp
  have run: "generate_recommendations default_settings [100] [0] [90] [0] [9] 10 =
               Inr [PeakShaved 10]"
    by code_simp
  show ?thesis unfolding ph using run by simp
qed

theorem peak_period_threshold_witness:
  "peak_hours_of default_settings [9] \<noteq> [] \<and>
   length [9 :: real] \<le> length [100 :: real] \<and> length [9 :: real] \<le> length [70 :: real] \<and>
   generate_recommendations default_settings [100] [0] [70] [0] [9] 30 =
     Inr [PeakPeriodReduced 0 1 (Some 30), PeakShaved 30] \<and>
   list_ex is_peak_period [PeakPeriodReduced 0 1 (Some 30), PeakShaved 30] \<and>
   (\<Sum>h\<leftarrow>peak_hours_of default_settings [9]. [70 :: real] ! h)
     < (\<Sum>h\<leftarrow>peak_hours_of default_settings [9]. [100 :: real] ! h) * (8 / 10)"
proof -
  have ph: "peak_hours_of default_settings [9] = [0]"
    by code_simp
  have run: "generate_recommendations default_settings [100] [0] [70] [0] [9] 30 =
               Inr [PeakPeriodReduced 0 1 (Some 30), PeakShaved 30]"
    by code_simp
  have ne: "peak_hours_of default_settings [9] \<noteq> []"
    by (simp add: ph)
  from peak_period_threshold [OF ne, of "[100]" "[70]" "[0]" "[0]" 30] run ne
  show ?thesis by auto
qed

text \<open>
  Claim C6, as stated, fails: with a solar forecast of zero the generator emits no
  solar-utilization observation at all.
\<close>

theorem no_solar_observation_without_forecast:
  "sum_list [0 :: real] = 0 \<and>
   generate_recommendations default_settings [100] [0] [100] [0] [5] 0 =
     Inr [NoSpecialRecommendation] \<and>
   filter is_solar_observation [NoSpecialRecommendation] = []"
proof -
  have run: "generate_recommendations default_settings [100] [0] [100] [0] [5] 0 =
               Inr [NoSpecialRecommendation]"
    by code_simp
  then show ?thesis by simp
qed

theorem solar_observation_when_forecast_positive_witness:
  "length [2 :: real, 5] \<le> length [100 :: real, 100] \<and>
   length [2 :: real, 5] \<le> length [550 / 9 :: real, 55] \<and>
   generate_recommendations default_settings [100, 100] [50, 0] [550 / 9, 55] [100 / 9, - 50]
     [2, 5] (350 / 9) =
     Inr [BatteryDischarged 50, SolarUtilization 100 EfficiencyGood, PeakShaved (350 / 9),
          OffPeakCharging 0 1 (100 / 9)] \<and>
   filter is_solar_observation
     [BatteryDischarged 50, SolarUtilization 100 EfficiencyGood, PeakShaved (350 / 9),
      OffPeakCharging 0 1 (100 / 9)] = [SolarUtilization 100 EfficiencyGood]"
proof -
  have run: "generate_recommendations default_settings [100, 100] [50, 0] [550 / 9, 55]
               [100 / 9, - 50] [2, 5] (350 / 9) =
             Inr [BatteryDischarged 50, SolarUtilization 100 EfficiencyGood, PeakShaved (350 / 9),
                  OffPeakCharging 0 1 (100 / 9)]"
    by code_simp
  from solar_observation_when_forecast_positive
         [of "[2, 5]" "[100, 100]" "[550 / 9, 55]" default_settings "[50, 0]" "[100 / 9, - 50]"
            "350 / 9"] run
  show ?thesis by simp
qed

section \<open>The Optimal branch\<close>

lemma sequenceE_py_div:
  "c \<noteq> 0 \<Longrightarrow> sequenceE (map (\<lambda>t. py_div (f t) c) ts) = Inr (map (\<lambda>t. f t / c) ts)"
  by (induction ts) (simp_all add: py_div_def)

lemma sequenceE_py_div_zero:
  "ts \<noteq> [] \<Longrightarrow> sequenceE (map (\<lambda>t. py_div (f t) 0) ts) = Inl ZeroDivisionError"
  by (cases ts) (simp_all add: py_div_def)

lemma savings_percent_of_eq:
  "savings_percent_of a b = Inr (if 0 < b then a / b * 100 else 0)"
  by (cases "0 < b") (simp_all add: savings_percent_of_def py_div_def)

lemma peak_reduction_of_eq:
  "peak_reduction_of a b = Inr (if 0 < a then (a - b) / a * 100 else 0)"
  by (cases "0 < a") (simp_all add: peak_reduction_of_def py_div_def)

lemma fold_max_Max: "fold max xs x = Max (set (x # xs))"
  by (rule Max.set_eq_fold [symmetric])

lemma py_max_eq: "xs \<noteq> [] \<Longrightarrow> py_max xs = Inr (Max (set xs))"
  by (cases xs) (simp_all add: py_max_def fold_max_Max)

lemma py_max_Inr: "py_max xs = Inr m \<Longrightarrow> xs \<noteq> [] \<and> m = Max (set xs)"
  by (cases xs) (auto simp: py_max_def fold_max_Max)

lemma optimal_result_returns:
  assumes len: "length t = length l" and ne: "l \<noteq> []" and cap: "battery_capacity self \<noteq> 0"
  shows "\<exists>r. optimal_result st self res sn l s t = Inr r \<and> recommendations r \<noteq> []"
proof -
  let ?T = "length l"
  let ?G = "map (\<lambda>t. or0 (grid_buy res t)) [0..<?T]"
  have g: "?G \<noteq> []" using ne by simp
  have 1: "sequenceE (map (\<lambda>t. py_div (or0 (soc res t)) (battery_capacity self)) [0..<?T + 1]) =
           Inr (map (\<lambda>t. or0 (soc res t) / battery_capacity self) [0..<?T + 1])"
    by (rule sequenceE_py_div [OF cap])
  have 2: "py_sum_products l t ?T = Inr (\<Sum>i\<leftarrow>[0..<?T]. l ! i * t ! i)"
    using len by (simp add: py_sum_products_def)
  note 4 = py_max_eq [OF ne] and 5 = py_max_eq [OF g]
  have gen: "\<And>b pr. \<exists>recs. generate_recommendations st l s ?G b t pr = Inr recs \<and> recs \<noteq> []"
    using generate_recommendations_returns [of t l ?G st s] generate_recommendations_nonempty len
    by fastforce
  show ?thesis
    unfolding optimal_result_def Let_def 1 2 4 5 savings_percent_of_eq peak_reduction_of_eq
      bindE_Inr
    using gen by (fastforce simp: bindE_eq_Inr)
qed

lemma optimize_returns:
  assumes "length s = length l" "length w = length l" "length t = length l" "l \<noteq> []"
    and "battery_capacity self \<noteq> 0"
  shows "\<exists>r. optimize st pulp self l s w t isoc = Inr r \<and> recommendations r \<noteq> []"
proof (cases "\<exists>solve. pulp = Some solve \<and>
    (\<forall>prob. build_problem st self l s w t isoc = Inr prob \<longrightarrow> prob_status (solve prob) = Optimal)")
  case True
  then obtain solve where sv: "pulp = Some solve"
    and opt: "\<And>prob. build_problem st self l s w t isoc = Inr prob \<Longrightarrow>
                 prob_status (solve prob) = Optimal"
    by blast
  obtain prob where p: "build_problem st self l s w t isoc = Inr prob"
    using build_problem_long [of l s w t st self isoc] assms by auto
  from optimal_result_returns [OF assms(3) assms(4) assms(5)]
  obtain r where "optimal_result st self (solve prob) ''Optimal'' l s t = Inr r"
    "recommendations r \<noteq> []"
    by blast
  then show ?thesis
    using sv p opt [OF p] by (simp add: optimize_def Let_def LpStatus_Optimal)
next
  case False
  obtain prob where p: "build_problem st self l s w t isoc = Inr prob"
    using build_problem_long [of l s w t st self isoc] assms by auto
  have b: "\<exists>r. baseline_result l s w t = Inr r \<and> recommendations r \<noteq> []"
    using assms by (simp add: baseline_result_equal_lengths)
  show ?thesis
  proof (cases pulp)
    case None
    with b show ?thesis by (simp add: optimize_def)
  next
    case (Some solve)
    with False p have "prob_status (solve prob) \<noteq> Optimal" by auto
    with b Some p show ?thesis by (simp add: optimize_def Let_def LpStatus_Optimal)
  qed
qed

lemma optimal_result_recommendations:
  "optimal_result st self res sn l s t = Inr r \<Longrightarrow> recommendations r \<noteq> []"
  by (auto simp: optimal_result_def Let_def bindE_eq_Inr dest: generate_recommendations_nonempty)

text \<open>
  Claim C8. Every result that \<open>optimize\<close> returns has at least one recommendation: the
  generator falls back to its default entry and the fallback result carries one entry. On
  arrays of one positive length and with a battery capacity other than zero a result is
  returned, whatever the solver answers.
\<close>

theorem recommendations_nonempty:
  "(\<forall>r. optimize st pulp self l s w t isoc = Inr r \<longrightarrow> recommendations r \<noteq> []) \<and>
   (length s = length l \<and> length w = length l \<and> length t = length l \<and> l \<noteq> [] \<and>
    battery_capacity self \<noteq> 0 \<longrightarrow>
      (\<exists>r. optimize st pulp self l s w t isoc = Inr r))"
proof (intro conjI allI impI)
  fix r
  assume "optimize st pulp self l s w t isoc = Inr r"
  from optimize_cases [OF this] show "recommendations r \<noteq> []"
    by (auto simp: baseline_result_fields dest: optimal_result_recommendations)
next
  assume "length s = length l \<and> length w = length l \<and> length t = length l \<and> l \<noteq> [] \<and>
    battery_capacity self \<noteq> 0"
  then show "\<exists>r. optimize st pulp self l s w t isoc = Inr r"
    using optimize_returns [of s l w t self st pulp isoc] by blast
qed

theorem recommendations_nonempty_witness:
  "length [50 :: real, 0] = length [100 :: real, 100] \<and>
   length [0 :: real, 0] = length [100 :: real, 100] \<and>
   length [2 :: real, 5] = length [100 :: real, 100] \<and>
   [100 :: real, 100] \<noteq> [] \<and>
   battery_capacity (TOUOptimizer_init default_settings) \<noteq> 0 \<and>
   optimize default_settings (Some shifting_solver) (TOUOptimizer_init default_settings)
     [100, 100] [50, 0] [0, 0] [2, 5] (1 / 2) = Inr shifted_two_hours \<and>
   recommendations shifted_two_hours \<noteq> []"
proof -
  have run: "optimize default_settings (Some shifting_solver) (TOUOptimizer_init default_settings)
     [100, 100] [50, 0] [0, 0] [2, 5] (1 / 2) = Inr shifted_two_hours"
    by code_simp
  have cap: "battery_capacity (TOUOptimizer_init default_settings) \<noteq> 0"
    by (simp add: TOUOptimizer_init_def default_settings_def)
  from recommendations_nonempty
         [of default_settings "Some shifting_solver" "TOUOptimizer_init default_settings"
            "[100, 100]" "[50, 0]" "[0, 0]" "[2, 5]" "1 / 2"] cap run
  show ?thesis by auto
qed

section \<open>Scaling the forecast\<close>

lemma scale_step: "x * 1000 * k = x * (1000 * k)" for x k :: real
  by simp

text \<open>
  Claim C9. For a series that is not empty, every load, solar and wind value is multiplied
  by \<open>1000 * scale_factor\<close>, where \<open>scale_factor\<close> is \<open>max_contract * 0.8\<close> over
  \<open>load_max_mw * 1000\<close> and \<open>load_max_mw\<close> is the largest load when that is positive and
  1 otherwise. The denominator is never zero.
\<close>

theorem forecast_scaling:
  assumes "load_raw \<noteq> []"
  shows "let load_max_mw = (if 0 < Max (set load_raw) then Max (set load_raw) else 1);
             scale_factor = max_contract self * (8 / 10) / (load_max_mw * 1000)
         in load_max_mw * 1000 \<noteq> 0 \<and>
            scale_forecast self load_raw solar_raw wind_raw =
              Inr (map (\<lambda>x. x * (1000 * scale_factor)) load_raw,
                   map (\<lambda>x. x * (1000 * scale_factor)) solar_raw,
                   map (\<lambda>x. x * (1000 * scale_factor)) wind_raw)"
proof -
  let ?m = "if 0 < Max (set load_raw) then Max (set load_raw) else 1"
  have pos: "0 < ?m" by simp
  then have nz: "?m * 1000 \<noteq> 0" by simp
  show ?thesis
    unfolding scale_forecast_def Let_def py_max_eq [OF assms] bindE_Inr py_div_nonzero [OF nz]
      scale_step
    using nz by simp
qed

theorem forecast_scaling_witness:
  "[30000 :: real, 20000] \<noteq> [] \<and>
   scale_forecast (TOUOptimizer_init default_settings) [30000, 20000] [6000, 0] [1500, 750] =
     Inr ([400, 800 / 3], [80, 0], [20, 10])"
proof -
  have m: "Max (set [30000 :: real, 20000]) = 30000" by simp
  have ne: "[30000 :: real, 20000] \<noteq> []" by simp
  from forecast_scaling [OF ne, of "TOUOptimizer_init default_settings" "[6000, 0]" "[1500, 750]"]
  show ?thesis
    unfolding Let_def m by (simp add: TOUOptimizer_init_def default_settings_def)
qed

section \<open>Derived metrics\<close>

lemma optimal_result_metrics:
  assumes "optimal_result st self res sn l s t = Inr r"
  shows "l \<noteq> []"
    "savings_percent r = (if 0 < baseline_cost r then savings r / baseline_cost r * 100 else 0)"
    "peak_reduction r = (if 0 < Max (set l)
        then (Max (set l) - Max (set (grid_consumption r))) / Max (set l) * 100 else 0)"
  using assms
  by (auto simp: optimal_result_def Let_def bindE_eq_Inr savings_percent_of_eq
        peak_reduction_of_eq dest!: py_max_Inr)

text \<open>
  Claim C10. The computations of the savings percentage and of the peak reduction never
  reach a division by zero. In every result with status \<open>Optimal\<close> the savings
  percentage is 0 when the baseline cost is not positive and the quotient otherwise, and
  the peak reduction is 0 when the largest load is not positive and the quotient otherwise.
\<close>

theorem derived_metrics_guarded:
  assumes "optimize st pulp self l s w t isoc = Inr r" and "status r = ''Optimal''"
  shows "savings_percent_of a b \<noteq> Inl ZeroDivisionError \<and>
         peak_reduction_of a b \<noteq> Inl ZeroDivisionError \<and>
         l \<noteq> [] \<and>
         (\<not> 0 < baseline_cost r \<longrightarrow> savings_percent r = 0) \<and>
         (0 < baseline_cost r \<longrightarrow> savings_percent r = savings r / baseline_cost r * 100) \<and>
         (\<not> 0 < Max (set l) \<longrightarrow> peak_reduction r = 0) \<and>
         (0 < Max (set l) \<longrightarrow>
            peak_reduction r =
              (Max (set l) - Max (set (grid_consumption r))) / Max (set l) * 100)"
proof -
  from optimize_cases [OF assms(1)] assms(2)
  obtain res where "optimal_result st self res ''Optimal'' l s t = Inr r"
    by (auto dest: baseline_result_fields)
  from optimal_result_metrics [OF this] show ?thesis
    by (simp add: savings_percent_of_eq peak_reduction_of_eq)
qed

theorem derived_metrics_guarded_witness:
  "optimize default_settings (Some shifting_solver) (TOUOptimizer_init default_settings)
     [100, 100] [50, 0] [0, 0] [2, 5] (1 / 2) = Inr shifted_two_hours \<and>
   status shifted_two_hours = ''Optimal'' \<and>
   0 < baseline_cost shifted_two_hours \<and>
   savings_percent shifted_two_hours =
     savings shifted_two_hours / baseline_cost shifted_two_hours * 100 \<and>
   0 < Max (set [100 :: real, 100]) \<and>
   peak_reduction shifted_two_hours =
     (Max (set [100, 100]) - Max (set (grid_consumption shifted_two_hours))) /
       Max (set [100, 100]) * 100"
proof -
  have run: "optimize default_settings (Some shifting_solver) (TOUOptimizer_init default_settings)
     [100, 100] [50, 0] [0, 0] [2, 5] (1 / 2) = Inr shifted_two_hours"
    by code_simp
  have st: "status shifted_two_hours = ''Optimal''"
    by (simp add: shifted_two_hours_def)
  have b: "0 < baseline_cost shifted_two_hours"
    by (simp add: shifted_two_hours_def)
  have m: "0 < Max (set [100 :: real, 100])" by simp
  from derived_metrics_guarded [OF run st] run st b m show ?thesis by simp
qed

section \<open>Scenarios and the attributes of the optimizer\<close>

text \<open>
  When no scenario raises, the optimizer is left as it was, and every scenario ran under
  the original attributes overridden by its own keys only.
\<close>

lemma simulate_loop_restores:
  "simulate_loop st pulp df i scs self results = (self', Inr out) \<Longrightarrow>
     self' = self \<and>
     map run_battery_capacity out = map run_battery_capacity results @
        map (\<lambda>sc. get_or (sc_battery_capacity sc) (battery_capacity self)) scs \<and>
     map run_max_contract out = map run_max_contract results @
        map (\<lambda>sc. get_or (sc_max_contract sc) (max_contract self)) scs"
proof (induction scs arbitrary: i results)
  case Nil
  then show ?case by simp
next
  case (Cons sc rest)
  then show ?case
    by (auto simp: Let_def split: sum.splits)
qed

lemma optimal_result_zero_capacity:
  assumes "battery_capacity self = 0"
  shows "optimal_result st self res sn l s t = Inl ZeroDivisionError"
proof -
  have "sequenceE (map (\<lambda>t. py_div (or0 (soc res t)) 0) [0..<length l + 1]) =
          Inl ZeroDivisionError"
    by (rule sequenceE_py_div_zero) simp
  then show ?thesis
    unfolding optimal_result_def Let_def assms by (simp only: bindE_Inl)
qed

lemma optimize_zero_capacity:
  assumes "battery_capacity self = 0"
    and "length l \<le> length s" "length l \<le> length w" "length l \<le> length t"
    and "\<And>prob. prob_status (solve prob) = Optimal"
  shows "optimize st (Some solve) self l s w t isoc = Inl ZeroDivisionError"
proof -
  obtain prob where "build_problem st self l s w t isoc = Inr prob"
    using build_problem_long [OF assms(2-4)] by blast
  then show ?thesis
    using assms(5)
    by (simp add: optimize_def Let_def LpStatus_Optimal optimal_result_zero_capacity [OF assms(1)])
qed

text \<open>
  Claim C4. \<open>simulate_scenarios\<close> restores the attributes only after
  \<open>optimize_schedule\<close> has returned. When that call raises, the override stays: on a
  forecast table without rows \<^verbatim>\<open>np.max\<close> raises ValueError and the optimizer keeps
  the battery capacity 200 of the scenario; under a scenario without a battery the Optimal
  branch raises ZeroDivisionError and the optimizer keeps the capacity 0. Its own capacity
  was 100.
\<close>

theorem override_survives_exception:
  "simulate_scenarios default_settings None (TOUOptimizer_init default_settings)
     empty_forecast [larger_battery] =
   ((TOUOptimizer_init default_settings)\<lparr>battery_capacity := 200\<rparr>, Inl ValueError) \<and>
   simulate_scenarios default_settings (Some grid_only_solver)
     (TOUOptimizer_init default_settings) flat_forecast [no_battery] =
   ((TOUOptimizer_init default_settings)\<lparr>battery_capacity := 0\<rparr>, Inl ZeroDivisionError) \<and>
   battery_capacity (TOUOptimizer_init default_settings) = 100"
proof -
  have 1: "simulate_scenarios default_settings None (TOUOptimizer_init default_settings)
     empty_forecast [larger_battery] =
   ((TOUOptimizer_init default_settings)\<lparr>battery_capacity := 200\<rparr>, Inl ValueError)"
    by (simp add: simulate_scenarios_def optimize_schedule_def scale_forecast_def column_or_def
          empty_forecast_def larger_battery_def get_or_def py_max_def Let_def)
  have st: "\<And>prob. prob_status (grid_only_solver prob) = Optimal"
    by (simp add: grid_only_solver_def)
  have 2: "simulate_scenarios default_settings (Some grid_only_solver)
     (TOUOptimizer_init default_settings) flat_forecast [no_battery] =
   ((TOUOptimizer_init default_settings)\<lparr>battery_capacity := 0\<rparr>, Inl ZeroDivisionError)"
    by (simp add: simulate_scenarios_def optimize_schedule_def scale_forecast_def column_or_def
          flat_forecast_def flat_row_def no_battery_def get_or_def py_max_def py_div_def Let_def
          optimize_zero_capacity [OF _ _ _ _ st])
  have 3: "battery_capacity (TOUOptimizer_init default_settings) = 100"
    by (simp add: TOUOptimizer_init_def default_settings_def)
  from 1 2 3 show ?thesis by simp
qed

end
